theory Spec2Isabelle
  imports Complex_Main "HOL-Library.Sublist"
begin

section \<open>JavaScript strings\<close>

text \<open>
  A string is a list of characters with codes 0 to 255. The white space of
  \<^verbatim>\<open>\s\<close> and of \<^verbatim>\<open>String.prototype.trim\<close> is the same set in
  ECMAScript (WhiteSpace and LineTerminator); in this range it is TAB, LF, VT, FF, CR, SP and
  NBSP. The line terminators in this range are LF and CR.
\<close>

definition LF :: char where
  "LF = CHR 0x0A"

definition CR :: char where
  "CR = CHR 0x0D"

definition isLineTerminator :: "char \<Rightarrow> bool" where
  "isLineTerminator c = (c = LF \<or> c = CR)"

definition isWhiteSpace :: "char \<Rightarrow> bool" where
  "isWhiteSpace c =
     (c = CHR 0x09 \<or> c = LF \<or> c = CHR 0x0B \<or> c = CHR 0x0C \<or> c = CR \<or> c = CHR 0x20 \<or> c = CHR 0xA0)"

text \<open>\<^verbatim>\<open>s.trim()\<close>: white space is removed at both ends.\<close>

definition trim :: "string \<Rightarrow> string" where
  "trim s = rev (dropWhile isWhiteSpace (rev (dropWhile isWhiteSpace s)))"

text \<open>\<^verbatim>\<open>s.includes(t)\<close>: \<open>t\<close> occurs in \<open>s\<close> at some position.\<close>

fun includesStr :: "string \<Rightarrow> string \<Rightarrow> bool" where
  "includesStr [] t = (t = [])"
| "includesStr (c # cs) t = (prefix t (c # cs) \<or> includesStr cs t)"

text \<open>
  \<^verbatim>\<open>s.toLowerCase()\<close> on this range: the letters A to Z and the upper-case letters
  of Latin-1 (0xC0 to 0xDE without the multiplication sign 0xD7) move up by 32.
\<close>

definition toLowerChar :: "char \<Rightarrow> char" where
  "toLowerChar c =
     (let n = (of_char c :: nat)
      in if (65 \<le> n \<and> n \<le> 90) \<or> (192 \<le> n \<and> n \<le> 222 \<and> n \<noteq> 215) then char_of (n + 32) else c)"

definition toLowerCase :: "string \<Rightarrow> string" where
  "toLowerCase s = map toLowerChar s"

text \<open>
  The operator \<^verbatim>\<open>x || d\<close> on a string that may be absent: the absent value and the
  empty string are falsy.
\<close>

fun orElse :: "string option \<Rightarrow> string \<Rightarrow> string" where
  "orElse None d = d"
| "orElse (Some s) d = (if s = [] then d else s)"

fun falsy :: "string option \<Rightarrow> bool" where
  "falsy None = True"
| "falsy (Some s) = (s = [])"

section \<open>Regular expressions\<close>

text \<open>
  The regular expressions of the source are sequences of single-character atoms, greedy
  repetitions of an atom with a lower bound (\<^verbatim>\<open>a*\<close>, \<^verbatim>\<open>a+\<close>,
  \<^verbatim>\<open>a{3,}\<close>) and the assertions \<^verbatim>\<open>^\<close> and \<^verbatim>\<open>$\<close>. The
  matcher is the backtracking matcher of ECMAScript on this fragment: a repetition first tries
  one more character and falls back to the rest of the pattern when that fails. It returns the
  length of the match that starts at the current position. \<open>prev\<close> is the character before
  the position (\<open>None\<close> at the start of the input) and \<open>m\<close> is the flag
  \<^verbatim>\<open>m\<close>.
\<close>

datatype atom = Lit char | Space | NoneOf "char list" | Word

fun accepts :: "atom \<Rightarrow> char \<Rightarrow> bool" where
  "accepts (Lit d) c = (c = d)"
| "accepts Space c = isWhiteSpace c"
| "accepts (NoneOf ds) c = (c \<notin> set ds)"
| "accepts Word c = (c \<in> set ''abcdefghijklmnopqrstuvwxyzABCDEFGHIJKLMNOPQRSTUVWXYZ0123456789_'')"

datatype item = One atom | AtLeast nat atom | Caret | Dollar

fun matchHere :: "bool \<Rightarrow> item list \<Rightarrow> char option \<Rightarrow> string \<Rightarrow> nat option" where
  "matchHere m [] prev s = Some 0"
| "matchHere m (One a # r) prev [] = None"
| "matchHere m (One a # r) prev (c # cs) =
     (if accepts a c then map_option Suc (matchHere m r (Some c) cs) else None)"
| "matchHere m (AtLeast (Suc n) a # r) prev [] = None"
| "matchHere m (AtLeast (Suc n) a # r) prev (c # cs) =
     (if accepts a c then map_option Suc (matchHere m (AtLeast n a # r) (Some c) cs) else None)"
| "matchHere m (AtLeast 0 a # r) prev [] = matchHere m r prev []"
| "matchHere m (AtLeast 0 a # r) prev (c # cs) =
     (if accepts a c
      then (case matchHere m (AtLeast 0 a # r) (Some c) cs of
              Some k \<Rightarrow> Some (Suc k)
            | None \<Rightarrow> matchHere m r prev (c # cs))
      else matchHere m r prev (c # cs))"
| "matchHere m (Caret # r) prev s =
     (if prev = None \<or> (m \<and> (case prev of Some p \<Rightarrow> isLineTerminator p | None \<Rightarrow> False))
      then matchHere m r prev s else None)"
| "matchHere m (Dollar # r) prev s =
     (if s = [] \<or> (m \<and> isLineTerminator (hd s)) then matchHere m r prev s else None)"

text \<open>\<^verbatim>\<open>re.exec(s)\<close> without the flag g: the text of the leftmost match.\<close>

fun exec :: "bool \<Rightarrow> item list \<Rightarrow> char option \<Rightarrow> string \<Rightarrow> string option" where
  "exec m re prev [] = (case matchHere m re prev [] of Some k \<Rightarrow> Some [] | None \<Rightarrow> None)"
| "exec m re prev (c # cs) =
     (case matchHere m re prev (c # cs) of
        Some k \<Rightarrow> Some (take k (c # cs))
      | None \<Rightarrow> exec m re (Some c) cs)"

text \<open>
  \<^verbatim>\<open>s.replace(re, repl)\<close> without the flag g: the leftmost match is replaced.
  None of the replacement strings of the source contains a \<^verbatim>\<open>$\<close> pattern.
\<close>

fun replaceFirst :: "bool \<Rightarrow> item list \<Rightarrow> string \<Rightarrow> char option \<Rightarrow> string \<Rightarrow> string" where
  "replaceFirst m re repl prev [] =
     (case matchHere m re prev [] of Some k \<Rightarrow> repl | None \<Rightarrow> [])"
| "replaceFirst m re repl prev (c # cs) =
     (case matchHere m re prev (c # cs) of
        Some k \<Rightarrow> repl @ drop k (c # cs)
      | None \<Rightarrow> c # replaceFirst m re repl (Some c) cs)"

text \<open>
  \<^verbatim>\<open>s.replace(re, repl)\<close> with the flag g: the matches are found from left to right,
  each search starting where the last match ended (one character later after an empty match).
\<close>

function replaceAll :: "bool \<Rightarrow> item list \<Rightarrow> string \<Rightarrow> char option \<Rightarrow> string \<Rightarrow> string" where
  "replaceAll m re repl prev [] =
     (case matchHere m re prev [] of Some k \<Rightarrow> repl | None \<Rightarrow> [])"
| "replaceAll m re repl prev (c # cs) =
     (case matchHere m re prev (c # cs) of
        None \<Rightarrow> c # replaceAll m re repl (Some c) cs
      | Some 0 \<Rightarrow> repl @ c # replaceAll m re repl (Some c) cs
      | Some (Suc k) \<Rightarrow> repl @ replaceAll m re repl (Some ((c # cs) ! k)) (drop k cs))"
  by pat_completeness auto
termination
  by (relation "measure (\<lambda>(m, re, repl, prev, s). length s)") auto

section \<open>The data of the API client\<close>

text \<open>
  The interfaces of \<^verbatim>\<open>services/api.ts\<close>. Numbers arrive in a JSON body, so they are
  finite; the thresholds compare them with small integers, which is exact, and a number is
  modelled as a real. The components receive the analysis result with the type
  \<^verbatim>\<open>any\<close> and guard its \<^verbatim>\<open>filename\<close> and \<^verbatim>\<open>language\<close> with
  \<^verbatim>\<open>||\<close>, so these two fields may be absent.
\<close>

record FunctionInfo =
  fn_name :: string
  fn_line_start :: real
  fn_line_end :: real
  fn_parameters :: "string list option"
  fn_docstring :: "string option"

record ClassInfo =
  cl_name :: string
  cl_line_start :: real
  cl_line_end :: real
  cl_methods :: "string list option"

record BasicAnalysis =
  ba_language :: string
  complexity_score :: real
  ba_functions :: "FunctionInfo list"
  ba_classes :: "ClassInfo list"
  ba_imports :: "string list"
  summary :: string
  suggestions :: "string list"
  metrics :: "(string \<times> real) list"

record AiEnhancement =
  ai_insights :: string
  enhanced_suggestions :: "string list"
  code_quality_score :: "real option"

record AnalysisResult =
  ar_filename :: "string option"
  ar_language :: "string option"
  file_extension :: string
  basic_analysis :: BasicAnalysis
  ai_enhancement :: AiEnhancement
  code_preview :: string

record QuestionResponse =
  qr_answer :: string
  qr_question :: string
  qr_language :: string

record DocumentationResponse =
  dr_filename :: string
  dr_language :: string
  documentation :: string

text \<open>
  A failed request: the rejection of the HTTP client, with the \<^verbatim>\<open>detail\<close> of the
  response body when there is one.
\<close>

datatype ApiError = ApiError (detail: "string option")

text \<open>The form fields of \<^verbatim>\<open>POST /question\<close>.\<close>

record QuestionRequest =
  rq_question :: string
  rq_code_content :: string
  rq_language :: string

text \<open>A \<^verbatim>\<open>File\<close>: its name, its text and its media type.\<close>

record File =
  file_name :: string
  file_content :: string
  file_type :: string

text \<open>
  \<^verbatim>\<open>askQuestion\<close> and \<^verbatim>\<open>generateDocumentation\<close> build the form and return
  the body of the response; the remote endpoint is the parameter \<open>post\<close>.
\<close>

definition askQuestion ::
  "(QuestionRequest \<Rightarrow> ApiError + QuestionResponse) \<Rightarrow> string \<Rightarrow> string \<Rightarrow> string
     \<Rightarrow> ApiError + QuestionResponse" where
  "askQuestion post q codeContent lang =
     post \<lparr>rq_question = q, rq_code_content = codeContent, rq_language = lang\<rparr>"

definition generateDocumentation ::
  "(File \<Rightarrow> ApiError + DocumentationResponse) \<Rightarrow> File \<Rightarrow> ApiError + DocumentationResponse" where
  "generateDocumentation post file = post file"

section \<open>CodeAnalysis: the colours of the scores\<close>

definition getComplexityColor :: "real \<Rightarrow> string" where
  "getComplexityColor score =
     (if score < 3 then ''text-green-600''
      else if score < 6 then ''text-yellow-600''
      else ''text-red-600'')"

text \<open>\<^verbatim>\<open>!score\<close> holds for \<^verbatim>\<open>null\<close> and for the number 0.\<close>

definition getQualityColor :: "real option \<Rightarrow> string" where
  "getQualityColor score =
     (case score of
        None \<Rightarrow> ''text-gray-600''
      | Some s \<Rightarrow>
          if s = 0 then ''text-gray-600''
          else if s \<ge> 8 then ''text-green-600''
          else if s \<ge> 6 then ''text-yellow-600''
          else ''text-red-600'')"

text \<open>
  The classes the component renders: the complexity colour always, the quality colour when
  the score is not \<^verbatim>\<open>null\<close>.
\<close>

definition complexityColor :: "AnalysisResult \<Rightarrow> string" where
  "complexityColor result = getComplexityColor (complexity_score (basic_analysis result))"

definition qualityColor :: "AnalysisResult \<Rightarrow> string option" where
  "qualityColor result =
     (case code_quality_score (ai_enhancement result) of
        None \<Rightarrow> None
      | Some s \<Rightarrow> Some (getQualityColor (Some s)))"

section \<open>CodeQuestion: the question panel\<close>

text \<open>
  The state of the component. \<open>answers\<close> is the conversation log. The properties are the
  code content and the analysis result held by the top-level view.
\<close>

record CodeQuestionState =
  question :: string
  isLoading :: bool
  answers :: "QuestionResponse list"
  language :: string

definition detectedLanguage :: "AnalysisResult option \<Rightarrow> string" where
  "detectedLanguage analysisResult =
     orElse (case analysisResult of None \<Rightarrow> None | Some r \<Rightarrow> ar_language r) ''Generic''"

definition initialCodeQuestion :: "AnalysisResult option \<Rightarrow> CodeQuestionState" where
  "initialCodeQuestion analysisResult =
     \<lparr>question = [], isLoading = False, answers = [], language = detectedLanguage analysisResult\<rparr>"

text \<open>
  What a handler did besides changing the state: the requests it sent to the backend and the
  alerts it raised.
\<close>

record QuestionEffects =
  sent :: "QuestionRequest list"
  alerts :: "string list"

text \<open>
  \<^verbatim>\<open>handleSubmit\<close>, from the submit event to the end of the \<^verbatim>\<open>finally\<close>
  block. The guard returns before anything is set. Otherwise the request is sent; the
  response is appended to the log the handler saw and the input is cleared, or the rejection
  is caught and an alert is raised; \<^verbatim>\<open>isLoading\<close> is reset either way.
\<close>

definition handleSubmit ::
  "(QuestionRequest \<Rightarrow> ApiError + QuestionResponse) \<Rightarrow> string \<Rightarrow> CodeQuestionState
     \<Rightarrow> CodeQuestionState \<times> QuestionEffects" where
  "handleSubmit post codeContent st =
     (if trim (question st) = [] \<or> trim codeContent = [] then (st, \<lparr>sent = [], alerts = []\<rparr>)
      else
        let request = \<lparr>rq_question = question st, rq_code_content = codeContent,
                         rq_language = language st\<rparr>
        in case askQuestion post (question st) codeContent (language st) of
             Inr response \<Rightarrow>
               (st\<lparr>answers := answers st @ [response], question := [], isLoading := False\<rparr>,
                \<lparr>sent = [request], alerts = []\<rparr>)
           | Inl error \<Rightarrow>
               (st\<lparr>isLoading := False\<rparr>,
                \<lparr>sent = [request], alerts = [''Failed to get answer. Please try again.'']\<rparr>))"

text \<open>
  The operations of the panel: the submit handler, the two change handlers and the effect
  that follows a new analysis result.
\<close>

datatype QuestionEvent =
  Submit
| ChangeQuestion string
| ChangeLanguage string
| AnalysisResultChanged "AnalysisResult option"

fun questionStep ::
  "(QuestionRequest \<Rightarrow> ApiError + QuestionResponse) \<Rightarrow> string \<Rightarrow> QuestionEvent
     \<Rightarrow> CodeQuestionState \<Rightarrow> CodeQuestionState" where
  "questionStep post codeContent Submit st = fst (handleSubmit post codeContent st)"
| "questionStep post codeContent (ChangeQuestion q) st = st\<lparr>question := q\<rparr>"
| "questionStep post codeContent (ChangeLanguage l) st = st\<lparr>language := l\<rparr>"
| "questionStep post codeContent (AnalysisResultChanged None) st = st"
| "questionStep post codeContent (AnalysisResultChanged (Some r)) st =
     (if falsy (ar_language r) then st else st\<lparr>language := the (ar_language r)\<rparr>)"

text \<open>
  Modelled from the spec: the remote question endpoint, whose code is not among the sources.
  The specification gives its call as a form with \<^verbatim>\<open>question\<close>,
  \<^verbatim>\<open>code_content\<close> and \<^verbatim>\<open>language\<close> answered by a
  \<^verbatim>\<open>QuestionResponse\<close>, and says of the entry appended for a question that its
  \<^verbatim>\<open>question\<close> is the literal input string. The answer, the language of the
  response and whether the call fails are left to the parameter \<open>service\<close>.
\<close>

definition questionEndpoint ::
  "(QuestionRequest \<Rightarrow> ApiError + string \<times> string) \<Rightarrow> QuestionRequest
     \<Rightarrow> ApiError + QuestionResponse" where
  "questionEndpoint service request =
     (case service request of
        Inl error \<Rightarrow> Inl error
      | Inr (text, lang) \<Rightarrow>
          Inr \<lparr>qr_answer = text, qr_question = rq_question request, qr_language = lang\<rparr>)"

section \<open>DocumentationGenerator: the documentation panel\<close>

record DocumentationState =
  isGenerating :: bool
  error :: "string option"
  generated :: "DocumentationResponse option"
  uploadedFile :: "File option"

definition errorMessage :: "ApiError \<Rightarrow> string" where
  "errorMessage err = orElse (detail err) ''Failed to generate documentation. Please try again.''"

text \<open>
  \<^verbatim>\<open>generateFromAnalyzedCode\<close>: the state at the end of the handler and the files
  it sent to \<^verbatim>\<open>POST /documentation\<close>. The field \<open>generated\<close> is the state
  variable \<^verbatim>\<open>documentation\<close>.
\<close>

definition generateFromAnalyzedCode ::
  "(File \<Rightarrow> ApiError + DocumentationResponse) \<Rightarrow> string option \<Rightarrow> AnalysisResult option
     \<Rightarrow> DocumentationState \<Rightarrow> DocumentationState \<times> File list" where
  "generateFromAnalyzedCode post codeContent analysisResult st =
     (if falsy codeContent \<or> analysisResult = None then (st, [])
      else
        let filename = orElse (ar_filename (the analysisResult)) ''code.py'';
            file = \<lparr>file_name = filename, file_content = the codeContent,
                      file_type = ''text/plain''\<rparr>
        in case generateDocumentation post file of
             Inr result \<Rightarrow>
               (st\<lparr>isGenerating := False, error := None, generated := Some result,
                   uploadedFile := Some file\<rparr>, [file])
           | Inl err \<Rightarrow>
               (st\<lparr>isGenerating := False, error := Some (errorMessage err), generated := None\<rparr>,
                [file]))"

text \<open>
  \<^verbatim>\<open>downloadDocumentation\<close>: the anchor the handler clicks, as the name and the
  content of the download; nothing when there is no documentation. The name is the file name
  after \<^verbatim>\<open>replace(/\.[^/.]+$/, '')\<close>, followed by the suffix.
\<close>

definition extensionRe :: "item list" where
  "extensionRe = [One (Lit CHR ''.''), AtLeast 1 (NoneOf ''/.''), Dollar]"

definition downloadName :: "string \<Rightarrow> string" where
  "downloadName filename = replaceFirst False extensionRe [] None filename @ ''_documentation.md''"

record Download =
  download :: string
  blob :: string
  blob_type :: string

definition downloadDocumentation :: "DocumentationState \<Rightarrow> Download option" where
  "downloadDocumentation st =
     (case generated st of
        None \<Rightarrow> None
      | Some doc \<Rightarrow>
          Some \<lparr>download = downloadName (dr_filename doc), blob = documentation doc,
                blob_type = ''text/markdown''\<rparr>)"

section \<open>MarkdownRenderer\<close>

subsection \<open>The cleanup of the content\<close>

text \<open>The pattern \<^verbatim>\<open>---+\<close> and the patterns built from it, in the order of the source.\<close>

definition dashes :: "item list" where
  "dashes = [One (Lit CHR ''-''), One (Lit CHR ''-''), AtLeast 1 (Lit CHR ''-'')]"

definition trailingRuleNl :: "item list" where
  "trailingRuleNl = One (Lit LF) # dashes @ [AtLeast 0 Space, Dollar]"

definition trailingRule :: "item list" where
  "trailingRule = dashes @ [AtLeast 0 Space, Dollar]"

definition ruleLfLf :: "item list" where
  "ruleLfLf = One (Lit LF) # dashes @ [One (Lit LF)]"

definition ruleLfCrLf :: "item list" where
  "ruleLfCrLf = One (Lit LF) # dashes @ [One (Lit CR), One (Lit LF)]"

definition ruleCrLfCrLf :: "item list" where
  "ruleCrLfCrLf = One (Lit CR) # One (Lit LF) # dashes @ [One (Lit CR), One (Lit LF)]"

definition ruleLine :: "item list" where
  "ruleLine = Caret # dashes @ [AtLeast 0 Space, Dollar]"

definition blankLines :: "item list" where
  "blankLines = [AtLeast 3 (Lit LF)]"

definition cleanedContent :: "string \<Rightarrow> string" where
  "cleanedContent content =
     (let s1 = replaceAll False trailingRuleNl [] None content;
          s2 = replaceAll False trailingRule [] None s1;
          s3 = replaceAll False ruleLfLf [LF, LF] None s2;
          s4 = replaceAll False ruleLfCrLf [LF, LF] None s3;
          s5 = replaceAll False ruleCrLfCrLf [CR, LF, CR, LF] None s4;
          s6 = replaceAll True ruleLine [] None s5;
          s7 = replaceFirst False trailingRule [] None s6;
          s8 = replaceAll False blankLines [LF, LF] None s7;
          s9 = trim s8
      in trim (replaceFirst False trailingRule [] None s9))"

text \<open>
  \<^verbatim>\<open>re.test(s)\<close>: the pattern matches somewhere in the text. A text has a rule
  when one of the six rule patterns of the cleanup matches in it: three or more hyphens and
  white space up to the end of the text, with or without a line feed before them; three or
  more hyphens between line breaks; or a line of three or more hyphens and white space.
\<close>

definition test :: "bool \<Rightarrow> item list \<Rightarrow> string \<Rightarrow> bool" where
  "test m re s = (exec m re None s \<noteq> None)"

definition hasRule :: "string \<Rightarrow> bool" where
  "hasRule s =
     (test False trailingRuleNl s \<or> test False trailingRule s \<or> test False ruleLfLf s
      \<or> test False ruleLfCrLf s \<or> test False ruleCrLfCrLf s \<or> test True ruleLine s)"

subsection \<open>The language of a code element\<close>

text \<open>
  The tag is the group of \<^verbatim>\<open>/language-(\w+)/\<close>: the match without its first nine
  characters. A match has at least one word character, so the group is never empty and
  \<^verbatim>\<open>match && match[1]\<close> holds exactly when there is a match.
\<close>

definition languageRe :: "item list" where
  "languageRe = map (One \<circ> Lit) ''language-'' @ [AtLeast 1 Word]"

definition languageTag :: "string option \<Rightarrow> string option" where
  "languageTag className = map_option (drop 9) (exec False languageRe None (orElse className []))"

definition codeString :: "string \<Rightarrow> string" where
  "codeString children = replaceFirst False [One (Lit LF), Dollar] [] None children"

definition isCodeBlock :: "string option \<Rightarrow> string \<Rightarrow> bool" where
  "isCodeBlock className children =
     (includesStr (codeString children) [LF] \<or> length (codeString children) > 50
      \<or> languageTag className \<noteq> None)"

definition detectLanguage :: "string \<Rightarrow> string" where
  "detectLanguage code =
     (let content = toLowerCase code
      in if includesStr content ''def '' \<or> includesStr content ''class ''
            \<or> includesStr content ''import '' \<or> includesStr content ''@dataclass''
            \<or> includesStr content ''raise '' \<or> includesStr content ''-> none''
            \<or> includesStr content ''// before:'' \<or> includesStr content ''// after:''
         then ''python''
         else if includesStr content ''function '' \<or> includesStr content ''const ''
            \<or> includesStr content ''let '' \<or> includesStr content ''export ''
            \<or> includesStr content ''interface '' \<or> includesStr content ''type ''
            \<or> includesStr content ''// before'' \<or> includesStr content ''// after''
         then ''javascript''
         else if includesStr content ''public '' \<or> includesStr content ''private ''
            \<or> (includesStr content ''class '' \<and> includesStr content ''{'')
         then ''java''
         else ''text'')"

text \<open>
  The language shown for a code element: nothing for inline code, the tag when there is one,
  the guess otherwise.
\<close>

definition codeLanguage :: "string option \<Rightarrow> string \<Rightarrow> string option" where
  "codeLanguage className children =
     (if isCodeBlock className children
      then Some (case languageTag className of
                   Some tag \<Rightarrow> tag
                 | None \<Rightarrow> detectLanguage (codeString children))
      else None)"

text \<open>
  The tokens of the three branches of the guess, as lists, and the test for one of them.
\<close>

definition pythonTokens :: "string list" where
  "pythonTokens = [''def '', ''class '', ''import '', ''@dataclass'', ''raise '', ''-> none'',
                   ''// before:'', ''// after:'']"

definition javascriptTokens :: "string list" where
  "javascriptTokens = [''function '', ''const '', ''let '', ''export '', ''interface '', ''type '',
                       ''// before'', ''// after'']"

definition javaTokens :: "string list" where
  "javaTokens = [''public '', ''private '']"

definition includesAny :: "string \<Rightarrow> string list \<Rightarrow> bool" where
  "includesAny content tokens = (\<exists>t \<in> set tokens. includesStr content t)"

text \<open>The test for a line feed, for the runs of line feeds.\<close>

abbreviation isLF :: "char \<Rightarrow> bool" where
  "isLF \<equiv> (\<lambda>c. c = LF)"

section \<open>Sample data\<close>

text \<open>
  Concrete inputs for the instances below: the analysis result of the API tests, states of
  the two panels and endpoints that fail or answer.
\<close>

definition mockResult :: AnalysisResult where
  "mockResult =
     \<lparr>ar_filename = Some ''test.py'', ar_language = Some ''Python'', file_extension = ''.py'',
      basic_analysis =
        \<lparr>ba_language = ''Python'', complexity_score = 5, ba_functions = [], ba_classes = [],
         ba_imports = [], summary = ''Test summary'', suggestions = [], metrics = []\<rparr>,
      ai_enhancement =
        \<lparr>ai_insights = ''Test insights'', enhanced_suggestions = [], code_quality_score = Some 8\<rparr>,
      code_preview = ''test code''\<rparr>"

definition withComplexity :: "real \<Rightarrow> AnalysisResult \<Rightarrow> AnalysisResult" where
  "withComplexity s r = r\<lparr>basic_analysis := (basic_analysis r)\<lparr>complexity_score := s\<rparr>\<rparr>"

definition withQuality :: "real option \<Rightarrow> AnalysisResult \<Rightarrow> AnalysisResult" where
  "withQuality q r = r\<lparr>ai_enhancement := (ai_enhancement r)\<lparr>code_quality_score := q\<rparr>\<rparr>"

definition failingPost :: "QuestionRequest \<Rightarrow> ApiError + QuestionResponse" where
  "failingPost request = Inl (ApiError None)"

definition blankQuestion :: CodeQuestionState where
  "blankQuestion = \<lparr>question = '' \<newline> '', isLoading = False, answers = [], language = ''Generic''\<rparr>"

definition whyQuestion :: CodeQuestionState where
  "whyQuestion = \<lparr>question = ''why?'', isLoading = False, answers = [], language = ''Generic''\<rparr>"

definition loggedQuestion :: CodeQuestionState where
  "loggedQuestion =
     \<lparr>question = ''why?'', isLoading = False,
      answers = [\<lparr>qr_answer = ''Test answer'', qr_question = ''Test question'', qr_language = ''Python''\<rparr>],
      language = ''Python''\<rparr>"

definition echoService :: "QuestionRequest \<Rightarrow> ApiError + string \<times> string" where
  "echoService request = Inr (''It adds two numbers.'', rq_language request)"

definition calculatorQuestion :: CodeQuestionState where
  "calculatorQuestion =
     \<lparr>question = ''What does Calculator.add do?'', isLoading = False,
      answers = [\<lparr>qr_answer = ''Test answer'', qr_question = ''Test question'', qr_language = ''Python''\<rparr>],
      language = ''JavaScript''\<rparr>"

definition failingDocPost :: "File \<Rightarrow> ApiError + DocumentationResponse" where
  "failingDocPost file = Inl (ApiError None)"

definition idleDocumentation :: DocumentationState where
  "idleDocumentation = \<lparr>isGenerating = False, error = None, generated = None, uploadedFile = None\<rparr>"

definition answeringDocPost :: "File \<Rightarrow> ApiError + DocumentationResponse" where
  "answeringDocPost file =
     Inr \<lparr>dr_filename = file_name file, dr_language = ''Python'',
          documentation = ''Generated documentation''\<rparr>"

definition fooDocumentation :: DocumentationState where
  "fooDocumentation =
     \<lparr>isGenerating = False, error = None,
      generated = Some \<lparr>dr_filename = ''foo.py'', dr_language = ''Python'',
                        documentation = ''Generated documentation''\<rparr>,
      uploadedFile = None\<rparr>"

definition makefileDocumentation :: DocumentationState where
  "makefileDocumentation =
     \<lparr>isGenerating = False, error = None,
      generated = Some \<lparr>dr_filename = ''Makefile'', dr_language = ''Generic'',
                        documentation = ''Generated documentation''\<rparr>,
      uploadedFile = None\<rparr>"

definition jsSnippet :: string where
  "jsSnippet = ''const x = 1;\<newline>export default x;\<newline>''"

definition javaSnippet :: string where
  "javaSnippet = ''private int x;\<newline>public int y;''"

definition tableText :: string where
  "tableText = ''# Title\<newline>---\<newline>\<newline>| a | b |\<newline>|---|---|\<newline>| 1 | 2 |\<newline>\<newline>\<newline>\<newline>a -- b --- c\<newline>---\<newline>''"

section \<open>The colours of the scores\<close>

text \<open>
  C1 (as stated): a complexity score of 6 yields the yellow class. It does not: yellow is
  for scores below 6.
\<close>

theorem complexity_six_is_not_yellow:
  "complexityColor (withComplexity 6 mockResult) \<noteq> ''text-yellow-600''"
  by (simp add: complexityColor_def getComplexityColor_def withComplexity_def)

text \<open>
  C1 (amended): for every analysis result the complexity colour is green below 3, yellow
  from 3 up to but not including 6, and red from 6 on; so a score of 3 is yellow and a score
  of 6 is red.
\<close>

theorem complexity_color_thresholds:
  "(complexity_score (basic_analysis r) < 3 \<longrightarrow> complexityColor r = ''text-green-600'') \<and>
   (3 \<le> complexity_score (basic_analysis r) \<and> complexity_score (basic_analysis r) < 6
      \<longrightarrow> complexityColor r = ''text-yellow-600'') \<and>
   (6 \<le> complexity_score (basic_analysis r) \<longrightarrow> complexityColor r = ''text-red-600'')"
  by (simp add: complexityColor_def getComplexityColor_def)

theorem complexity_color_thresholds_witness:
  "complexityColor (withComplexity 3 mockResult) = ''text-yellow-600'' \<and>
   complexityColor (withComplexity 6 mockResult) = ''text-red-600'' \<and>
   complexityColor (withComplexity 2 mockResult) = ''text-green-600''"
  using complexity_color_thresholds [of "withComplexity 3 mockResult"]
    complexity_color_thresholds [of "withComplexity 6 mockResult"]
    complexity_color_thresholds [of "withComplexity 2 mockResult"]
  by (simp add: withComplexity_def)

text \<open>
  C2: the quality colour is green from 8, yellow from 6, red below, and grey exactly for no
  score. The code tests the score for truthiness, so the score 0 is grey and not red; the
  component shows the score when it is not \<^verbatim>\<open>null\<close>, so a score of 0 is
  displayed in grey.
\<close>

theorem quality_color_of_zero:
  "getQualityColor (Some 0) = ''text-gray-600'' \<and> getQualityColor (Some 0) \<noteq> ''text-red-600'' \<and>
   qualityColor (withQuality (Some 0) mockResult) = Some ''text-gray-600''"
  by (simp add: getQualityColor_def qualityColor_def withQuality_def)

text \<open>Every other score follows the thresholds.\<close>

lemma getQualityColor_nonzero:
  "s \<noteq> 0 \<Longrightarrow> getQualityColor (Some s) =
     (if s \<ge> 8 then ''text-green-600'' else if s \<ge> 6 then ''text-yellow-600'' else ''text-red-600'')"
  by (simp add: getQualityColor_def)

section \<open>The question panel\<close>

text \<open>
  C4: a submit with an empty or all-white-space question, or with empty code content, does
  nothing: no request is sent, no alert is raised and the state, the log included, is the same.
\<close>

theorem empty_submit_is_noop:
  "trim (question st) = [] \<or> trim codeContent = [] \<Longrightarrow>
   handleSubmit post codeContent st = (st, \<lparr>sent = [], alerts = []\<rparr>)"
  by (simp add: handleSubmit_def)

theorem empty_submit_is_noop_witness:
  "trim (question blankQuestion) = [] \<and>
   handleSubmit failingPost ''x = 1'' blankQuestion = (blankQuestion, \<lparr>sent = [], alerts = []\<rparr>) \<and>
   trim [] = [] \<and>
   handleSubmit failingPost [] whyQuestion = (whyQuestion, \<lparr>sent = [], alerts = []\<rparr>)"
  using empty_submit_is_noop [of blankQuestion "''x = 1''" failingPost]
    empty_submit_is_noop [of whyQuestion "[]" failingPost]
  by (simp add: trim_def isWhiteSpace_def LF_def blankQuestion_def)

text \<open>
  C5: when the request of a submit fails, the log is what it was before, the input text is
  kept, and the failure is reported by an alert.
\<close>

theorem failed_question_keeps_log:
  assumes "trim (question st) \<noteq> []" and "trim codeContent \<noteq> []"
    and "post \<lparr>rq_question = question st, rq_code_content = codeContent,
               rq_language = language st\<rparr> = Inl err"
  shows "answers (fst (handleSubmit post codeContent st)) = answers st \<and>
         question (fst (handleSubmit post codeContent st)) = question st \<and>
         alerts (snd (handleSubmit post codeContent st)) = [''Failed to get answer. Please try again.'']"
  using assms by (simp add: handleSubmit_def askQuestion_def)

theorem failed_question_keeps_log_witness:
  "trim (question loggedQuestion) \<noteq> [] \<and> trim ''x = 1'' \<noteq> [] \<and>
   failingPost \<lparr>rq_question = question loggedQuestion, rq_code_content = ''x = 1'',
                rq_language = language loggedQuestion\<rparr> = Inl (ApiError None) \<and>
   answers (fst (handleSubmit failingPost ''x = 1'' loggedQuestion)) = answers loggedQuestion \<and>
   question (fst (handleSubmit failingPost ''x = 1'' loggedQuestion)) = ''why?''"
proof -
  have a: "trim (question loggedQuestion) \<noteq> []"
    by (simp add: trim_def isWhiteSpace_def LF_def CR_def loggedQuestion_def)
  have b: "trim ''x = 1'' \<noteq> []"
    by (simp add: trim_def isWhiteSpace_def LF_def CR_def)
  have c: "failingPost \<lparr>rq_question = question loggedQuestion, rq_code_content = ''x = 1'',
                rq_language = language loggedQuestion\<rparr> = Inl (ApiError None)"
    by (simp add: failingPost_def)
  from failed_question_keeps_log [of loggedQuestion "''x = 1''" failingPost "ApiError None", OF a b c]
    a b c show ?thesis
    by (simp add: loggedQuestion_def)
qed

text \<open>A submit whose request succeeds appends the response, whatever the endpoint.\<close>

lemma handleSubmit_success:
  assumes "trim (question st) \<noteq> []" and "trim codeContent \<noteq> []"
    and "post \<lparr>rq_question = question st, rq_code_content = codeContent,
               rq_language = language st\<rparr> = Inr response"
  shows "handleSubmit post codeContent st =
           (st\<lparr>answers := answers st @ [response], question := [], isLoading := False\<rparr>,
            \<lparr>sent = [\<lparr>rq_question = question st, rq_code_content = codeContent,
                       rq_language = language st\<rparr>], alerts = []\<rparr>)"
  using assms by (simp add: handleSubmit_def askQuestion_def)

lemma handleSubmit_log_prefix:
  "prefix (answers st) (answers (fst (handleSubmit post codeContent st)))"
  by (simp add: handleSubmit_def Let_def split: sum.split)

lemma questionStep_log_prefix:
  "prefix (answers st) (answers (questionStep post codeContent ev st))"
proof (cases ev)
  case Submit
  then show ?thesis by (simp add: handleSubmit_log_prefix)
next
  case (AnalysisResultChanged r)
  then show ?thesis by (cases r) simp_all
qed simp_all

text \<open>
  C6: after a successful submit the log is the old log followed by one entry, whose question
  is the submitted text as typed; and no operation of the panel removes or changes an entry
  of the log (the old log is a prefix of the new one).
\<close>

theorem successful_question_appends:
  assumes "trim (question st) \<noteq> []" and "trim codeContent \<noteq> []"
    and "service \<lparr>rq_question = question st, rq_code_content = codeContent,
                  rq_language = language st\<rparr> = Inr (text, lang)"
  shows "answers (fst (handleSubmit (questionEndpoint service) codeContent st)) =
           answers st @ [\<lparr>qr_answer = text, qr_question = question st, qr_language = lang\<rparr>] \<and>
         (\<forall>ev post' code'. prefix (answers st) (answers (questionStep post' code' ev st)))"
proof -
  have "questionEndpoint service \<lparr>rq_question = question st, rq_code_content = codeContent,
          rq_language = language st\<rparr>
        = Inr \<lparr>qr_answer = text, qr_question = question st, qr_language = lang\<rparr>"
    using assms(3) by (simp add: questionEndpoint_def)
  from handleSubmit_success [of st codeContent "questionEndpoint service", OF assms(1,2) this]
  show ?thesis
    by (simp add: questionStep_log_prefix)
qed

theorem successful_question_appends_witness:
  "trim (question calculatorQuestion) \<noteq> [] \<and> trim ''class Calculator {}'' \<noteq> [] \<and>
   answers (fst (handleSubmit (questionEndpoint echoService) ''class Calculator {}'' calculatorQuestion)) =
     [\<lparr>qr_answer = ''Test answer'', qr_question = ''Test question'', qr_language = ''Python''\<rparr>,
      \<lparr>qr_answer = ''It adds two numbers.'', qr_question = ''What does Calculator.add do?'',
       qr_language = ''JavaScript''\<rparr>]"
proof -
  have a: "trim (question calculatorQuestion) \<noteq> []"
    by (simp add: trim_def isWhiteSpace_def LF_def CR_def calculatorQuestion_def)
  have b: "trim ''class Calculator {}'' \<noteq> []"
    by (simp add: trim_def isWhiteSpace_def LF_def CR_def)
  have c: "echoService \<lparr>rq_question = question calculatorQuestion,
             rq_code_content = ''class Calculator {}'', rq_language = language calculatorQuestion\<rparr>
           = Inr (''It adds two numbers.'', ''JavaScript'')"
    by (simp add: echoService_def calculatorQuestion_def)
  from successful_question_appends [of calculatorQuestion "''class Calculator {}''" echoService
      "''It adds two numbers.''" "''JavaScript''", OF a b c] a b show ?thesis
    by (simp add: calculatorQuestion_def)
qed

section \<open>The documentation panel\<close>

text \<open>
  C8: with code content and an analysis result present, generating from the analyzed file
  sends one documentation request; its file holds the stored text, and its name is the file
  name of the analysis result, or \<^verbatim>\<open>code.py\<close> when that name is absent or empty.
  The reply to this request is what the panel then holds: the documentation and the file when
  the request succeeds, the message of the error when it fails.
\<close>

theorem generate_from_analyzed_request:
  assumes "codeContent = Some code" and "code \<noteq> []" and "analysisResult = Some r"
  shows "let file = \<lparr>file_name = (case ar_filename r of
                                     None \<Rightarrow> ''code.py''
                                   | Some name \<Rightarrow> if name = [] then ''code.py'' else name),
                      file_content = code, file_type = ''text/plain''\<rparr>;
             outcome = generateFromAnalyzedCode post codeContent analysisResult st
         in snd outcome = [file] \<and>
            (\<forall>result. post file = Inr result \<longrightarrow>
               generated (fst outcome) = Some result \<and> uploadedFile (fst outcome) = Some file
               \<and> error (fst outcome) = None) \<and>
            (\<forall>err. post file = Inl err \<longrightarrow>
               generated (fst outcome) = None \<and> error (fst outcome) = Some (errorMessage err))"
  using assms
  by (cases "ar_filename r")
     (simp_all add: generateFromAnalyzedCode_def generateDocumentation_def Let_def split: sum.split)

theorem generate_from_analyzed_request_witness:
  "snd (generateFromAnalyzedCode answeringDocPost (Some ''test code'') (Some mockResult) idleDocumentation) =
     [\<lparr>file_name = ''test.py'', file_content = ''test code'', file_type = ''text/plain''\<rparr>] \<and>
   generated (fst (generateFromAnalyzedCode answeringDocPost (Some ''test code'') (Some mockResult)
       idleDocumentation)) =
     Some \<lparr>dr_filename = ''test.py'', dr_language = ''Python'', documentation = ''Generated documentation''\<rparr> \<and>
   snd (generateFromAnalyzedCode failingDocPost (Some ''test code'')
          (Some (mockResult\<lparr>ar_filename := None\<rparr>)) idleDocumentation) =
     [\<lparr>file_name = ''code.py'', file_content = ''test code'', file_type = ''text/plain''\<rparr>] \<and>
   error (fst (generateFromAnalyzedCode failingDocPost (Some ''test code'')
          (Some (mockResult\<lparr>ar_filename := None\<rparr>)) idleDocumentation)) =
     Some ''Failed to generate documentation. Please try again.''"
proof -
  have a: "answeringDocPost \<lparr>file_name = ''test.py'', file_content = ''test code'', file_type = ''text/plain''\<rparr>
      = Inr \<lparr>dr_filename = ''test.py'', dr_language = ''Python'', documentation = ''Generated documentation''\<rparr>"
    by (simp add: answeringDocPost_def)
  have b: "failingDocPost \<lparr>file_name = ''code.py'', file_content = ''test code'', file_type = ''text/plain''\<rparr>
      = Inl (ApiError None)"
    by (simp add: failingDocPost_def)
  have c: "errorMessage (ApiError None) = ''Failed to generate documentation. Please try again.''"
    by (simp add: errorMessage_def)
  from generate_from_analyzed_request [of "Some ''test code''" "''test code''" "Some mockResult" mockResult
      answeringDocPost idleDocumentation]
    generate_from_analyzed_request [of "Some ''test code''" "''test code''"
      "Some (mockResult\<lparr>ar_filename := None\<rparr>)" "mockResult\<lparr>ar_filename := None\<rparr>"
      failingDocPost idleDocumentation] a b c
  show ?thesis
    by (simp add: mockResult_def Let_def)
qed


subsection \<open>The name of the download\<close>

text \<open>
  A repetition followed by \<^verbatim>\<open>$\<close> matches exactly when the whole rest of the
  input is accepted; so the extension pattern matches at a dot that is followed, up to the end,
  by one or more characters other than dot and slash.
\<close>

lemma matchHere_AtLeast_Dollar:
  "matchHere False [AtLeast n a, Dollar] prev s =
     (if n \<le> length s \<and> (\<forall>c\<in>set s. accepts a c) then Some (length s) else None)"
proof (induction s arbitrary: n prev)
  case Nil
  then show ?case by (cases n) simp_all
next
  case (Cons c cs)
  then show ?case by (cases n) auto
qed

lemma matchHere_extensionRe:
  "matchHere False extensionRe prev s =
     (case s of
        [] \<Rightarrow> None
      | c # cs \<Rightarrow>
          if c = CHR ''.'' \<and> cs \<noteq> [] \<and> (\<forall>x\<in>set cs. x \<noteq> CHR ''/'' \<and> x \<noteq> CHR ''.'')
          then Some (length s) else None)"
  by (cases s) (auto simp: extensionRe_def matchHere_AtLeast_Dollar Suc_le_eq)

lemma replaceFirst_extension:
  assumes "ext \<noteq> []" and "CHR ''.'' \<notin> set ext" and "CHR ''/'' \<notin> set ext"
  shows "replaceFirst False extensionRe [] prev (base @ CHR ''.'' # ext) = base"
proof (induction base arbitrary: prev)
  case Nil
  from assms show ?case by (auto simp: matchHere_extensionRe)
next
  case (Cons b bs)
  have "matchHere False extensionRe prev ((b # bs) @ CHR ''.'' # ext) = None"
    by (simp add: matchHere_extensionRe)
  then show ?case using Cons.IH by simp
qed

lemma replaceFirst_no_extension:
  assumes "\<not> (\<exists>base ext. f = base @ CHR ''.'' # ext \<and> ext \<noteq> [] \<and> CHR ''.'' \<notin> set ext \<and> CHR ''/'' \<notin> set ext)"
  shows "replaceFirst False extensionRe [] prev f = f"
  using assms
proof (induction f arbitrary: prev)
  case Nil
  then show ?case by (simp add: matchHere_extensionRe)
next
  case (Cons c cs)
  have none: "matchHere False extensionRe prev (c # cs) = None"
  proof (rule ccontr)
    assume "matchHere False extensionRe prev (c # cs) \<noteq> None"
    then have "c = CHR ''.''" "cs \<noteq> []" "\<forall>x\<in>set cs. x \<noteq> CHR ''/'' \<and> x \<noteq> CHR ''.''"
      by (auto simp: matchHere_extensionRe split: if_splits)
    then have "c # cs = [] @ CHR ''.'' # cs \<and> cs \<noteq> [] \<and> CHR ''.'' \<notin> set cs \<and> CHR ''/'' \<notin> set cs"
      by auto
    with Cons.prems show False by blast
  qed
  have "\<not> (\<exists>base ext. cs = base @ CHR ''.'' # ext \<and> ext \<noteq> [] \<and> CHR ''.'' \<notin> set ext \<and> CHR ''/'' \<notin> set ext)"
  proof
    assume "\<exists>base ext. cs = base @ CHR ''.'' # ext \<and> ext \<noteq> [] \<and> CHR ''.'' \<notin> set ext \<and> CHR ''/'' \<notin> set ext"
    then obtain base ext where "cs = base @ CHR ''.'' # ext" "ext \<noteq> []" "CHR ''.'' \<notin> set ext" "CHR ''/'' \<notin> set ext"
      by blast
    then have "c # cs = (c # base) @ CHR ''.'' # ext \<and> ext \<noteq> [] \<and> CHR ''.'' \<notin> set ext \<and> CHR ''/'' \<notin> set ext"
      by simp
    with Cons.prems show False by blast
  qed
  from Cons.IH [OF this] none show ?case by simp
qed

text \<open>
  C7: when the file name of the documentation response ends in a dot-separated extension (a
  dot followed by one or more characters other than dot and slash), the download is named by
  the file name without this extension, followed by \<^verbatim>\<open>_documentation.md\<close>; so
  \<^verbatim>\<open>foo.py\<close> gives \<^verbatim>\<open>foo_documentation.md\<close>.
\<close>

theorem download_name_replaces_extension:
  assumes "generated st = Some doc" and "dr_filename doc = base @ ''.'' @ ext"
    and "ext \<noteq> []" and "CHR ''.'' \<notin> set ext" and "CHR ''/'' \<notin> set ext"
  shows "map_option download (downloadDocumentation st) = Some (base @ ''_documentation.md'')"
  using assms replaceFirst_extension [of ext None base]
  by (simp add: downloadDocumentation_def downloadName_def)

theorem download_name_replaces_extension_witness:
  "map_option download (downloadDocumentation fooDocumentation) = Some ''foo_documentation.md''"
  using download_name_replaces_extension [of fooDocumentation
      "\<lparr>dr_filename = ''foo.py'', dr_language = ''Python'', documentation = ''Generated documentation''\<rparr>"
      "''foo''" "''py''"]
  by (simp add: fooDocumentation_def)

text \<open>
  C10: when the file name of the documentation response has no dot-separated extension, as
  \<^verbatim>\<open>Makefile\<close>, the pattern removes nothing: the download takes place and is named
  by the whole file name followed by \<^verbatim>\<open>_documentation.md\<close>.
\<close>

theorem download_name_without_extension:
  assumes "generated st = Some doc"
    and "\<not> (\<exists>base ext. dr_filename doc = base @ ''.'' @ ext \<and> ext \<noteq> []
              \<and> CHR ''.'' \<notin> set ext \<and> CHR ''/'' \<notin> set ext)"
  shows "downloadDocumentation st =
           Some \<lparr>download = dr_filename doc @ ''_documentation.md'', blob = documentation doc,
                 blob_type = ''text/markdown''\<rparr>"
  using assms replaceFirst_no_extension [of "dr_filename doc" None]
  by (simp add: downloadDocumentation_def downloadName_def)

theorem download_name_without_extension_witness:
  "downloadDocumentation makefileDocumentation =
     Some \<lparr>download = ''Makefile_documentation.md'', blob = ''Generated documentation'',
           blob_type = ''text/markdown''\<rparr>"
proof -
  let ?doc = "\<lparr>dr_filename = ''Makefile'', dr_language = ''Generic'',
                documentation = ''Generated documentation''\<rparr>"
  have a: "generated makefileDocumentation = Some ?doc"
    by (simp add: makefileDocumentation_def)
  have b: "\<not> (\<exists>base ext. dr_filename ?doc = base @ ''.'' @ ext \<and> ext \<noteq> []
              \<and> CHR ''.'' \<notin> set ext \<and> CHR ''/'' \<notin> set ext)"
  proof
    assume "\<exists>base ext. dr_filename ?doc = base @ ''.'' @ ext \<and> ext \<noteq> []
              \<and> CHR ''.'' \<notin> set ext \<and> CHR ''/'' \<notin> set ext"
    then obtain base ext where eq: "''Makefile'' = base @ ''.'' @ ext" by auto
    have "CHR ''.'' \<in> set (base @ ''.'' @ ext)" by simp
    then have "CHR ''.'' \<in> set ''Makefile''" by (simp only: eq)
    then show False by simp
  qed
  from download_name_without_extension [OF a b] show ?thesis by simp
qed

section \<open>The Markdown renderer\<close>

subsection \<open>The guess of the language\<close>

text \<open>
  C9 (as stated): a snippet with \<^verbatim>\<open>public\<close>, \<^verbatim>\<open>class\<close> and a brace
  is classified as Java, and text without one of the listed tokens is plain text. Neither
  holds: the first branch of the guess takes every text with \<^verbatim>\<open>class\<close>, and it
  also looks for \<^verbatim>\<open>raise\<close>.
\<close>

theorem language_guess_counterexample:
  "codeLanguage None ''public class Foo {\<newline>}'' = Some ''python'' \<and>
   codeLanguage None ''if x < 0:\<newline>    raise ValueError(x)'' = Some ''python''"
  by code_simp

text \<open>
  C9 (amended): for every code element that the renderer treats as a block and that has no
  language tag, and whose lower-cased text does not contain both \<^verbatim>\<open>class\<close>
  followed by a space and an opening brace, the guess is made on the lower-cased text by the
  first branch that applies: python for one of the Python tokens, javascript for one of the
  JavaScript tokens, java for \<^verbatim>\<open>public\<close> or \<^verbatim>\<open>private\<close> followed
  by a space, and text otherwise. The text is the content of the element without one final
  line feed; without a tag the element is a block when this text has a line break or more
  than 50 characters, and inline code gets no language at all.
\<close>

theorem language_guess:
  assumes "languageTag className = None"
    and "isCodeBlock className children"
    and "\<not> (includesStr (toLowerCase (codeString children)) ''class ''
             \<and> includesStr (toLowerCase (codeString children)) ''{'')"
  shows "codeLanguage className children =
           Some (if includesAny (toLowerCase (codeString children)) pythonTokens then ''python''
                 else if includesAny (toLowerCase (codeString children)) javascriptTokens then ''javascript''
                 else if includesAny (toLowerCase (codeString children)) javaTokens then ''java''
                 else ''text'')"
proof -
  from assms(1,2) have "codeLanguage className children = Some (detectLanguage (codeString children))"
    by (simp add: codeLanguage_def)
  moreover have "detectLanguage (codeString children) =
           (if includesAny (toLowerCase (codeString children)) pythonTokens then ''python''
                 else if includesAny (toLowerCase (codeString children)) javascriptTokens then ''javascript''
                 else if includesAny (toLowerCase (codeString children)) javaTokens then ''java''
                 else ''text'')"
    using assms(3)
    by (simp add: detectLanguage_def Let_def includesAny_def pythonTokens_def javascriptTokens_def javaTokens_def)
  ultimately show ?thesis by simp
qed


theorem language_guess_witness:
  "codeLanguage None jsSnippet = Some ''javascript'' \<and> codeLanguage None javaSnippet = Some ''java''"
proof -
  have tag: "languageTag None = None"
    by code_simp
  have js_block: "isCodeBlock None jsSnippet"
    by code_simp
  have js_class: "\<not> (includesStr (toLowerCase (codeString jsSnippet)) ''class ''
                      \<and> includesStr (toLowerCase (codeString jsSnippet)) ''{'')"
    by code_simp
  have js_tokens: "\<not> includesAny (toLowerCase (codeString jsSnippet)) pythonTokens"
    "includesAny (toLowerCase (codeString jsSnippet)) javascriptTokens"
    by code_simp+
  have java_block: "isCodeBlock None javaSnippet"
    by code_simp
  have java_class: "\<not> (includesStr (toLowerCase (codeString javaSnippet)) ''class ''
                        \<and> includesStr (toLowerCase (codeString javaSnippet)) ''{'')"
    by code_simp
  have java_tokens: "\<not> includesAny (toLowerCase (codeString javaSnippet)) pythonTokens"
    "\<not> includesAny (toLowerCase (codeString javaSnippet)) javascriptTokens"
    "includesAny (toLowerCase (codeString javaSnippet)) javaTokens"
    by code_simp+
  from language_guess [OF tag js_block js_class] language_guess [OF tag java_block java_class]
    js_tokens java_tokens
  show ?thesis by simp
qed

text \<open>The block test without a tag, and the language of inline code.\<close>

lemma isCodeBlock_untagged:
  "languageTag className = None \<Longrightarrow>
   isCodeBlock className children =
     (includesStr (codeString children) [LF] \<or> length (codeString children) > 50)"
  by (simp add: isCodeBlock_def)

lemma inline_code_has_no_language: "\<not> isCodeBlock className children \<Longrightarrow> codeLanguage className children = None"
  by (simp add: codeLanguage_def)

subsection \<open>The cleanup of the content\<close>

text \<open>
  A replacement changes nothing when its pattern matches nowhere. Each of the rule patterns
  needs three hyphens in a row, and the pattern of the blank lines three line feeds in a row.
\<close>

lemma includesStr_sublist: "includesStr s t = sublist t s"
  by (induction s) (simp_all add: sublist_Cons_right)

lemma replaceAll_no_match:
  assumes "\<And>p t k. matchHere m re p t = Some k \<Longrightarrow> sublist w t" and "\<not> sublist w s"
  shows "replaceAll m re repl prev s = s"
  using assms(2)
proof (induction s arbitrary: prev)
  case Nil
  with assms(1) [of prev "[]"] show ?case by (cases "matchHere m re prev []") auto
next
  case (Cons c cs)
  from Cons.prems have "\<not> sublist w cs"
    by (simp add: sublist_Cons_right)
  moreover from Cons.prems assms(1) [of prev "c # cs"] have "matchHere m re prev (c # cs) = None"
    by (cases "matchHere m re prev (c # cs)") auto
  ultimately show ?case using Cons.IH by simp
qed

lemma replaceAll_unmatched: "exec m re prev s = None \<Longrightarrow> replaceAll m re repl prev s = s"
  by (induction s arbitrary: prev) (auto split: option.splits)

lemma replaceFirst_unmatched: "exec m re prev s = None \<Longrightarrow> replaceFirst m re repl prev s = s"
  by (induction s arbitrary: prev) (auto split: option.splits)

lemma exec_sublist:
  assumes "\<And>p t k. matchHere m re p t = Some k \<Longrightarrow> sublist w t" and "exec m re prev s \<noteq> None"
  shows "sublist w s"
  using assms(2)
proof (induction s arbitrary: prev)
  case Nil
  then show ?case using assms(1) [of prev "[]"] by (auto split: option.splits)
next
  case (Cons c cs)
  show ?case
  proof (cases "matchHere m re prev (c # cs)")
    case None
    with Cons.prems have "exec m re (Some c) cs \<noteq> None" by simp
    then have "sublist w cs" by (rule Cons.IH)
    then show ?thesis by (simp add: sublist_Cons_right)
  next
    case (Some k)
    then show ?thesis by (rule assms(1))
  qed
qed


lemma matchHere_One:
  "matchHere m (One a # r) p t = Some k \<Longrightarrow>
     \<exists>c cs k'. t = c # cs \<and> accepts a c \<and> matchHere m r (Some c) cs = Some k'"
  by (cases t) (auto split: if_splits)

lemma matchHere_AtLeast_Suc:
  "matchHere m (AtLeast (Suc n) a # r) p t = Some k \<Longrightarrow>
     \<exists>c cs k'. t = c # cs \<and> accepts a c \<and> matchHere m (AtLeast n a # r) (Some c) cs = Some k'"
  by (cases t) (auto split: if_splits)

lemma matchHere_dashes:
  assumes "matchHere m (dashes @ r) p t = Some k"
  shows "prefix ''---'' t"
proof -
  from assms obtain c1 t1 k1 where 1: "t = c1 # t1" "c1 = CHR ''-''"
      "matchHere m (One (Lit CHR ''-'') # AtLeast 1 (Lit CHR ''-'') # r) (Some c1) t1 = Some k1"
    unfolding dashes_def by (auto dest!: matchHere_One)
  from 1(3) obtain c2 t2 k2 where 2: "t1 = c2 # t2" "c2 = CHR ''-''"
      "matchHere m (AtLeast (Suc 0) (Lit CHR ''-'') # r) (Some c2) t2 = Some k2"
    by (auto dest!: matchHere_One)
  from 2(3) obtain c3 t3 where 3: "t2 = c3 # t3" "c3 = CHR ''-''"
    by (auto dest!: matchHere_AtLeast_Suc)
  from 1 2 3 show ?thesis by simp
qed

lemma matchHere_trailingRuleNl: "matchHere m trailingRuleNl p t = Some k \<Longrightarrow> sublist ''---'' t"
  unfolding trailingRuleNl_def
  by (auto dest!: matchHere_One dest: matchHere_dashes simp: sublist_Cons_right)

lemma matchHere_trailingRule: "matchHere m trailingRule p t = Some k \<Longrightarrow> sublist ''---'' t"
  unfolding trailingRule_def by (auto dest: matchHere_dashes)

lemma matchHere_ruleLfLf: "matchHere m ruleLfLf p t = Some k \<Longrightarrow> sublist ''---'' t"
  unfolding ruleLfLf_def
  by (auto dest!: matchHere_One dest: matchHere_dashes simp: sublist_Cons_right)

lemma matchHere_ruleLfCrLf: "matchHere m ruleLfCrLf p t = Some k \<Longrightarrow> sublist ''---'' t"
  unfolding ruleLfCrLf_def
  by (auto dest!: matchHere_One dest: matchHere_dashes simp: sublist_Cons_right)

lemma matchHere_ruleCrLfCrLf: "matchHere m ruleCrLfCrLf p t = Some k \<Longrightarrow> sublist ''---'' t"
  unfolding ruleCrLfCrLf_def
  by (auto dest!: matchHere_One dest: matchHere_dashes simp: sublist_Cons_right)

lemma matchHere_ruleLine: "matchHere m ruleLine p t = Some k \<Longrightarrow> sublist ''---'' t"
  unfolding ruleLine_def by (auto dest: matchHere_dashes split: if_splits)

lemma matchHere_AtLeast_only:
  "matchHere m [AtLeast n a] prev s =
     (if n \<le> length (takeWhile (accepts a) s) then Some (length (takeWhile (accepts a) s)) else None)"
proof (induction s arbitrary: n prev)
  case Nil
  then show ?case by (cases n) simp_all
next
  case (Cons c cs)
  then show ?case by (cases n) auto
qed

lemma matchHere_blankLines:
  "matchHere m blankLines prev s =
     (if 3 \<le> length (takeWhile isLF s) then Some (length (takeWhile isLF s)) else None)"
proof -
  have "accepts (Lit LF) = isLF" by (rule ext) simp
  then show ?thesis by (simp add: blankLines_def matchHere_AtLeast_only)
qed

lemma takeWhile_length_Suc:
  "Suc n \<le> length (takeWhile P t) \<Longrightarrow> \<exists>a t1. t = a # t1 \<and> P a \<and> n \<le> length (takeWhile P t1)"
  by (cases t) (auto split: if_splits)

lemma matchHere_blankLines_sublist:
  assumes "matchHere m blankLines p t = Some k"
  shows "sublist [LF, LF, LF] t"
proof -
  from assms have "Suc (Suc (Suc 0)) \<le> length (takeWhile isLF t)"
    by (simp add: matchHere_blankLines numeral_3_eq_3 split: if_splits)
  then obtain t1 where 1: "t = LF # t1" "Suc (Suc 0) \<le> length (takeWhile isLF t1)"
    by (auto dest!: takeWhile_length_Suc)
  from 1(2) obtain t2 where 2: "t1 = LF # t2" "Suc 0 \<le> length (takeWhile isLF t2)"
    by (auto dest!: takeWhile_length_Suc)
  from 2(2) obtain t3 where 3: "t2 = LF # t3"
    by (auto dest!: takeWhile_length_Suc)
  from 1 2 3 have "prefix [LF, LF, LF] t" by simp
  then show ?thesis by (rule prefix_imp_sublist)
qed

text \<open>
  After the replacement of the blank lines no three line feeds in a row are left: a run of
  three or more becomes two, followed by a character that is no line feed, and a shorter run
  stays as it is.
\<close>

lemma replaceAll_blankLines_short:
  assumes "length (takeWhile isLF (c # cs)) < 3"
  shows "replaceAll False blankLines repl prev (c # cs) = c # replaceAll False blankLines repl (Some c) cs"
  using assms by (simp add: matchHere_blankLines del: takeWhile.simps)

lemma replaceAll_blankLines_long:
  assumes "3 \<le> length (takeWhile isLF (c # cs))"
  shows "\<exists>p. replaceAll False blankLines repl prev (c # cs) =
           repl @ replaceAll False blankLines repl p (dropWhile isLF (c # cs))"
proof -
  from assms obtain k where k: "length (takeWhile isLF (c # cs)) = Suc k"
    by (cases "length (takeWhile isLF (c # cs))") simp_all
  then have "matchHere False blankLines prev (c # cs) = Some (Suc k)"
    using assms by (simp add: matchHere_blankLines del: takeWhile.simps)
  moreover have "drop k cs = dropWhile isLF (c # cs)"
    using k by (simp add: dropWhile_eq_drop [of isLF "c # cs"] del: takeWhile.simps dropWhile.simps)
  ultimately show ?thesis by (auto simp del: takeWhile.simps dropWhile.simps)
qed

lemma takeWhile_dropWhile_Nil: "takeWhile P (dropWhile P xs) = []"
  by (induction xs) simp_all

lemma prefix_LF_LF_run: "prefix [LF, LF] y \<Longrightarrow> 2 \<le> length (takeWhile isLF y)"
  by (auto simp: prefix_def)

lemma collapse_invariant:
  "\<not> sublist [LF, LF, LF] (replaceAll False blankLines [LF, LF] prev s) \<and>
   length (takeWhile isLF (replaceAll False blankLines [LF, LF] prev s)) \<le> length (takeWhile isLF s)"
proof (induction s arbitrary: prev rule: length_induct)
  case (1 s)
  show ?case
  proof (cases s)
    case Nil
    then show ?thesis by (simp add: matchHere_blankLines)
  next
    case (Cons c cs)
    show ?thesis
    proof (cases "3 \<le> length (takeWhile isLF s)")
      case True
      with Cons obtain p where out: "replaceAll False blankLines [LF, LF] prev s =
          [LF, LF] @ replaceAll False blankLines [LF, LF] p (dropWhile isLF s)"
        using replaceAll_blankLines_long [of c cs "[LF, LF]" prev] by auto
      let ?y = "replaceAll False blankLines [LF, LF] p (dropWhile isLF s)"
      have "length (dropWhile isLF s) < length s"
        using True length_takeWhile_le [of isLF s] by (simp add: dropWhile_eq_drop [of isLF s])
      with "1.IH" have ih: "\<not> sublist [LF, LF, LF] ?y"
        "length (takeWhile isLF ?y) \<le> length (takeWhile isLF (dropWhile isLF s))"
        by blast+
      from ih(2) have y: "takeWhile isLF ?y = []"
        by (simp add: takeWhile_dropWhile_Nil)
      then have hd: "?y = [] \<or> hd ?y \<noteq> LF"
        by (cases ?y) (auto split: if_splits)
      have "\<not> sublist [LF, LF, LF] (LF # LF # ?y)"
        using ih(1) hd by (cases ?y) (auto simp: sublist_Cons_right)
      moreover have "length (takeWhile isLF (LF # LF # ?y)) = 2"
        using y by simp
      ultimately show ?thesis using out True by simp
    next
      case False
      with Cons have out: "replaceAll False blankLines [LF, LF] prev s =
          c # replaceAll False blankLines [LF, LF] (Some c) cs"
        using replaceAll_blankLines_short [of c cs "[LF, LF]" prev] by simp
      let ?y = "replaceAll False blankLines [LF, LF] (Some c) cs"
      from Cons "1.IH" have ih: "\<not> sublist [LF, LF, LF] ?y"
        "length (takeWhile isLF ?y) \<le> length (takeWhile isLF cs)"
        by auto
      show ?thesis
      proof (cases "c = LF")
        case True
        with False Cons have "length (takeWhile isLF cs) < 2" by simp
        with ih(2) have "\<not> prefix [LF, LF] ?y"
          using prefix_LF_LF_run [of ?y] by auto
        with ih True have "\<not> sublist [LF, LF, LF] (c # ?y)"
          by (simp add: sublist_Cons_right)
        then show ?thesis using out ih(2) True Cons by simp
      next
        case False
        with ih have "\<not> sublist [LF, LF, LF] (c # ?y)"
          by (simp add: sublist_Cons_right)
        then show ?thesis using out False Cons by simp
      qed
    qed
  qed
qed

text \<open>Trimming twice is trimming once, and the trimmed text is a part of the text.\<close>

lemma trim_trimmed: "dropWhile isWhiteSpace (trim x) = trim x"
proof -
  let ?y = "dropWhile isWhiteSpace x"
  let ?z = "dropWhile isWhiteSpace (rev ?y)"
  show ?thesis
  proof (cases "?z = []")
    case True
    then have "trim x = []" unfolding trim_def by simp
    then show ?thesis by simp
  next
    case False
    have "?y \<noteq> []"
    proof
      assume "?y = []"
      then have "?z = []" by (simp only: rev.simps dropWhile.simps)
      with False show False by contradiction
    qed
    then have "\<not> isWhiteSpace (hd ?y)" by (rule hd_dropWhile)
    moreover have "hd (rev ?z) = hd ?y"
    proof -
      have "rev ?y = takeWhile isWhiteSpace (rev ?y) @ ?z" by simp
      then have "last (rev ?y) = last ?z" using False by (metis last_appendR)
      then show ?thesis by (simp add: hd_rev last_rev)
    qed
    ultimately show ?thesis using False
      by (simp add: trim_def dropWhile_eq_self_iff)
  qed
qed

lemma trim_idem: "trim (trim x) = trim x"
proof -
  have "trim (trim x) = rev (dropWhile isWhiteSpace (rev (trim x)))"
    by (simp add: trim_def [of "trim x"] trim_trimmed)
  also have "rev (trim x) = dropWhile isWhiteSpace (rev (dropWhile isWhiteSpace x))"
    by (simp add: trim_def)
  also have "rev (dropWhile isWhiteSpace \<dots>) = trim x"
    by (simp add: trim_def)
  finally show ?thesis .
qed

lemma sublist_trim: "sublist (trim x) x"
proof -
  have "sublist (rev (trim x)) (rev x)"
    unfolding trim_def rev_rev_ident
    by (meson sublist_dropWhile sublist_order.order.trans sublist_rev)
  then show ?thesis by simp
qed

text \<open>
  A pattern that ends in \<^verbatim>\<open>$\<close>, without the flag m, matches up to the end of the
  input only; so removing the trailing rule leaves a prefix of the text.
\<close>

lemma matchHere_AtLeast_to_end:
  assumes "\<And>prev s k. matchHere False r prev s = Some k \<Longrightarrow> k = length s"
  shows "matchHere False (AtLeast n a # r) prev s = Some k \<Longrightarrow> k = length s"
proof (induction s arbitrary: n prev k)
  case Nil
  then show ?case using assms by (cases n) auto
next
  case (Cons c cs)
  show ?case
  proof (cases n)
    case 0
    with Cons.prems Cons.IH [of 0 "Some c"] assms [of prev "c # cs" k] show ?thesis
      by (auto split: if_splits option.splits)
  next
    case (Suc n')
    with Cons.prems Cons.IH [of n' "Some c"] show ?thesis
      by (auto split: if_splits)
  qed
qed

lemma matchHere_to_end:
  "r \<noteq> [] \<Longrightarrow> last r = Dollar \<Longrightarrow> matchHere False r prev s = Some k \<Longrightarrow> k = length s"
proof (induction r arbitrary: prev s k)
  case Nil
  then show ?case by simp
next
  case (Cons x r)
  show ?case
  proof (cases "r = []")
    case True
    with Cons.prems show ?thesis by (auto split: if_splits)
  next
    case False
    with Cons.prems have ih: "\<And>prev s k. matchHere False r prev s = Some k \<Longrightarrow> k = length s"
      using Cons.IH by simp
    show ?thesis
    proof (cases x)
      case (One a)
      with Cons.prems(3) ih show ?thesis by (cases s) (auto split: if_splits)
    next
      case (AtLeast n a)
      from Cons.prems(3) have "matchHere False (AtLeast n a # r) prev s = Some k"
        by (simp only: AtLeast)
      with ih show ?thesis by (rule matchHere_AtLeast_to_end [of r n a prev s k])
    next
      case Caret
      with Cons.prems(3) ih show ?thesis by (auto split: if_splits)
    next
      case Dollar
      with Cons.prems(3) ih show ?thesis by (auto split: if_splits)
    qed
  qed
qed

lemma replaceFirst_trailingRule_prefix: "prefix (replaceFirst False trailingRule [] prev x) x"
proof (induction x arbitrary: prev)
  case Nil
  then show ?case by (simp split: option.split)
next
  case (Cons c cs)
  show ?case
  proof (cases "matchHere False trailingRule prev (c # cs)")
    case None
    with Cons.IH show ?thesis by simp
  next
    case (Some k)
    then have "k = length (c # cs)"
      by (rule matchHere_to_end [rotated 2]) (simp_all add: trailingRule_def dashes_def)
    with Some show ?thesis by simp
  qed
qed

text \<open>
  C3 (as stated): cleaning twice gives the same text as cleaning once. It does not: a rule
  after leading white space is uncovered by the final trim and removed by the next cleaning,
  and of four rules in a line the passes remove three.
\<close>

theorem cleanup_not_idempotent:
  "cleanedContent (cleanedContent '' ---\<newline>Notes'') \<noteq> cleanedContent '' ---\<newline>Notes'' \<and>
   cleanedContent (cleanedContent ''--- --- --- ---'') \<noteq> cleanedContent ''--- --- --- ---''"
  by code_simp

text \<open>
  C3 (amended): for every input whose cleaned text has no rule left (none of the rule
  patterns of the cleanup matches in it), cleaning the cleaned text again gives the same text.
  Hyphens elsewhere, as in the separator row of a table or inside a line, do not matter.
\<close>

theorem cleanup_idempotent_without_rules:
  assumes "\<not> hasRule (cleanedContent content)"
  shows "cleanedContent (cleanedContent content) = cleanedContent content"
proof -
  let ?out = "cleanedContent content"
  obtain x where out: "?out = trim (replaceFirst False trailingRule [] None
      (trim (replaceAll False blankLines [LF, LF] None x)))"
    by (simp add: cleanedContent_def Let_def)
  from assms have none: "exec False trailingRuleNl None ?out = None"
    "exec False trailingRule None ?out = None" "exec False ruleLfLf None ?out = None"
    "exec False ruleLfCrLf None ?out = None" "exec False ruleCrLfCrLf None ?out = None"
    "exec True ruleLine None ?out = None"
    by (simp_all add: hasRule_def test_def)
  have trimmed: "trim ?out = ?out"
    by (simp only: out trim_idem)
  have "sublist ?out (replaceAll False blankLines [LF, LF] None x)"
    unfolding out
    by (meson sublist_trim prefix_imp_sublist replaceFirst_trailingRule_prefix
        sublist_order.order.trans)
  with collapse_invariant [of None x] have blank: "\<not> sublist [LF, LF, LF] ?out"
    by (meson sublist_order.order.trans)
  have 1: "replaceAll False trailingRuleNl [] None ?out = ?out"
    using none(1) by (rule replaceAll_unmatched)
  have 2: "replaceAll False trailingRule [] None ?out = ?out"
    using none(2) by (rule replaceAll_unmatched)
  have 3: "replaceAll False ruleLfLf [LF, LF] None ?out = ?out"
    using none(3) by (rule replaceAll_unmatched)
  have 4: "replaceAll False ruleLfCrLf [LF, LF] None ?out = ?out"
    using none(4) by (rule replaceAll_unmatched)
  have 5: "replaceAll False ruleCrLfCrLf [CR, LF, CR, LF] None ?out = ?out"
    using none(5) by (rule replaceAll_unmatched)
  have 6: "replaceAll True ruleLine [] None ?out = ?out"
    using none(6) by (rule replaceAll_unmatched)
  have 7: "replaceFirst False trailingRule [] None ?out = ?out"
    using none(2) by (rule replaceFirst_unmatched)
  have 8: "replaceAll False blankLines [LF, LF] None ?out = ?out"
    using matchHere_blankLines_sublist blank by (rule replaceAll_no_match)
  show ?thesis
    by (simp only: cleanedContent_def [of ?out] Let_def 1 2 3 4 5 6 7 8 trimmed)
qed

theorem cleanup_idempotent_without_rules_witness:
  "cleanedContent (cleanedContent tableText) =
     ''# Title\<newline>\<newline>| a | b |\<newline>|---|---|\<newline>| 1 | 2 |\<newline>\<newline>a -- b --- c''"
proof -
  have out: "cleanedContent tableText =
      ''# Title\<newline>\<newline>| a | b |\<newline>|---|---|\<newline>| 1 | 2 |\<newline>\<newline>a -- b --- c''"
    by code_simp
  have "\<not> hasRule (cleanedContent tableText)"
    by code_simp
  from cleanup_idempotent_without_rules [OF this] show ?thesis
    by (simp only: out)
qed

text \<open>A text without three hyphens in a row has no rule, so the theorem covers it.\<close>

lemma no_hyphens_no_rule:
  assumes "\<not> includesStr s ''---''"
  shows "\<not> hasRule s"
proof
  assume "hasRule s"
  then consider "exec False trailingRuleNl None s \<noteq> None" | "exec False trailingRule None s \<noteq> None"
    | "exec False ruleLfLf None s \<noteq> None" | "exec False ruleLfCrLf None s \<noteq> None"
    | "exec False ruleCrLfCrLf None s \<noteq> None" | "exec True ruleLine None s \<noteq> None"
    unfolding hasRule_def test_def by blast
  then have "sublist ''---'' s"
  proof cases
    case 1
    with matchHere_trailingRuleNl show ?thesis by (rule exec_sublist)
  next
    case 2
    with matchHere_trailingRule show ?thesis by (rule exec_sublist)
  next
    case 3
    with matchHere_ruleLfLf show ?thesis by (rule exec_sublist)
  next
    case 4
    with matchHere_ruleLfCrLf show ?thesis by (rule exec_sublist)
  next
    case 5
    with matchHere_ruleCrLfCrLf show ?thesis by (rule exec_sublist)
  next
    case 6
    with matchHere_ruleLine show ?thesis by (rule exec_sublist)
  qed
  with assms show False by (simp add: includesStr_sublist)
qed

end
